theory Spec2Isabelle
  imports Main "HOL-Library.Sublist"
begin

section \<open>The strings package, as far as httpsify.go calls it\<close>

text \<open>
  A Go string is a sequence of bytes, here a \<^typ>\<open>string\<close>. The functions below follow
  the Go standard library: \<open>HasPrefix\<close>, \<open>TrimPrefix\<close> and \<open>Index\<close> compare bytes;
  \<open>TrimLeft\<close> and \<open>TrimRight\<close> are only called with the cutset \<open>"/"\<close>, for which the
  library drops bytes; \<open>TrimSpace\<close> drops the white-space runes of Unicode, read as
  UTF-8, from both ends.
\<close>

definition HasPrefix :: "string \<Rightarrow> string \<Rightarrow> bool" where
  "HasPrefix s p = prefix p s"

definition TrimPrefix :: "string \<Rightarrow> string \<Rightarrow> string" where
  "TrimPrefix s p = (if HasPrefix s p then drop (length p) s else s)"

text \<open>\<open>Index s sub\<close> is the position of the first instance of \<open>sub\<close> in \<open>s\<close>, or -1.\<close>

fun Index :: "string \<Rightarrow> string \<Rightarrow> int" where
  "Index [] sub = (if sub = [] then 0 else - 1)"
| "Index (c # s) sub =
     (if prefix sub (c # s) then 0
      else (let i = Index s sub in if i < 0 then - 1 else i + 1))"

definition TrimLeft :: "string \<Rightarrow> string \<Rightarrow> string" where
  "TrimLeft s cutset = dropWhile (\<lambda>c. c \<in> set cutset) s"

definition TrimRight :: "string \<Rightarrow> string \<Rightarrow> string" where
  "TrimRight s cutset = rev (dropWhile (\<lambda>c. c \<in> set cutset) (rev s))"

text \<open>
  The runes for which \<open>unicode.IsSpace\<close> holds, each in its UTF-8 encoding: the six of
  ASCII, U+0085, U+00A0, U+1680, U+2000 to U+200A, U+2028, U+2029, U+202F, U+205F and
  U+3000. A byte sequence that is not valid UTF-8 decodes to the error rune, which is
  not white space, so trimming stops there.
\<close>

definition space_runes :: "string list" where
  "space_runes =
    [[CHR 0x09], [CHR 0x0A], [CHR 0x0B], [CHR 0x0C], [CHR 0x0D], [CHR 0x20],
     [CHR 0xC2, CHR 0x85], [CHR 0xC2, CHR 0xA0],
     [CHR 0xE1, CHR 0x9A, CHR 0x80],
     [CHR 0xE2, CHR 0x80, CHR 0x80], [CHR 0xE2, CHR 0x80, CHR 0x81],
     [CHR 0xE2, CHR 0x80, CHR 0x82], [CHR 0xE2, CHR 0x80, CHR 0x83],
     [CHR 0xE2, CHR 0x80, CHR 0x84], [CHR 0xE2, CHR 0x80, CHR 0x85],
     [CHR 0xE2, CHR 0x80, CHR 0x86], [CHR 0xE2, CHR 0x80, CHR 0x87],
     [CHR 0xE2, CHR 0x80, CHR 0x88], [CHR 0xE2, CHR 0x80, CHR 0x89],
     [CHR 0xE2, CHR 0x80, CHR 0x8A],
     [CHR 0xE2, CHR 0x80, CHR 0xA8], [CHR 0xE2, CHR 0x80, CHR 0xA9],
     [CHR 0xE2, CHR 0x80, CHR 0xAF],
     [CHR 0xE2, CHR 0x81, CHR 0x9F],
     [CHR 0xE3, CHR 0x80, CHR 0x80]]"

text \<open>The number of bytes of the rune of \<open>runes\<close> that \<open>s\<close> begins with, 0 when none.\<close>

definition width :: "string list \<Rightarrow> string \<Rightarrow> nat" where
  "width runes s = (case find (\<lambda>e. prefix e s) runes of None \<Rightarrow> 0 | Some e \<Rightarrow> length e)"

lemma width_le: "width runes s \<le> length s"
  by (auto simp: width_def find_Some_iff prefix_def split: option.splits)

function trimRunes :: "string list \<Rightarrow> string \<Rightarrow> string" where
  "trimRunes runes s =
     (if width runes s = 0 then s else trimRunes runes (drop (width runes s) s))"
  by pat_completeness auto
termination
proof (relation "measure (\<lambda>(runes, s). length s)")
  show "wf (measure (\<lambda>(runes, s). length s))"
    by simp
next
  fix runes :: "string list" and s :: string
  assume "width runes s \<noteq> 0"
  moreover have "width runes s \<le> length s"
    by (rule width_le)
  ultimately show "((runes, drop (width runes s) s), (runes, s)) \<in> measure (\<lambda>(runes, s). length s)"
    by simp
qed

declare trimRunes.simps [simp del]

text \<open>
  \<open>TrimSpace\<close> trims the front, then the back. The last rune of a string is a white-space
  rune exactly when the string ends with that rune's encoding, so the back is trimmed on
  the reversed string with the reversed encodings.
\<close>

definition TrimSpace :: "string \<Rightarrow> string" where
  "TrimSpace s = rev (trimRunes (map rev space_runes) (rev (trimRunes space_runes s)))"

text \<open>
  \<open>genSplit\<close> is the loop behind \<open>Split\<close> and \<open>SplitN\<close> for a separator that is not
  empty; \<open>n\<close> counts the cuts still allowed. \<open>SplitN s sep n\<close> makes at most \<open>n - 1\<close>
  cuts. \<open>Split\<close> allows as many cuts as there are separators; no string holds more
  than \<open>length s\<close> of them, and the loop leaves at the first \<open>Index\<close> below 0.
\<close>

fun genSplit :: "string \<Rightarrow> string \<Rightarrow> nat \<Rightarrow> string list" where
  "genSplit s sep 0 = [s]"
| "genSplit s sep (Suc n) =
     (let m = Index s sep
      in if m < 0 then [s]
         else take (nat m) s # genSplit (drop (nat m + length sep) s) sep n)"

definition SplitN :: "string \<Rightarrow> string \<Rightarrow> nat \<Rightarrow> string list" where
  "SplitN s sep n = (if n = 0 then [] else genSplit s sep (n - 1))"

definition Split :: "string \<Rightarrow> string \<Rightarrow> string list" where
  "Split s sep = genSplit s sep (length s)"

text \<open>
  \<open>ToLower\<close> maps the bytes \<open>A\<close> to \<open>Z\<close> of a string of ASCII bytes to \<open>a\<close> to \<open>z\<close>. A
  string with a byte from 0x80 on goes through \<open>strings.Map(unicode.ToLower, s)\<close>; the
  Unicode case tables are not part of the program, so that function is the parameter
  \<open>unicode_ToLower\<close>.
\<close>

definition ascii_lower :: "char \<Rightarrow> char" where
  "ascii_lower c =
     (let n = (of_char c :: nat) in if 65 \<le> n \<and> n \<le> 90 then char_of (n + 32) else c)"

definition is_ascii :: "char \<Rightarrow> bool" where
  "is_ascii c = ((of_char c :: nat) < 128)"

definition ToLower :: "(string \<Rightarrow> string) \<Rightarrow> string \<Rightarrow> string" where
  "ToLower unicode_ToLower s =
     (if list_all is_ascii s then map ascii_lower s else unicode_ToLower s)"

definition LF :: string where
  "LF = [CHR 0x0A]"

section \<open>fixUrl\<close>

definition fixUrl :: "string \<Rightarrow> string" where
  "fixUrl u0 =
    (let u = TrimPrefix (TrimSpace u0) ''https://'';
         u = (if Index u '':'' = 0 then ''localhost'' @ u else u);
         u = (if \<not> HasPrefix u ''ws://'' \<and> \<not> HasPrefix u ''http://''
              then ''http://'' @ u else u);
         u = TrimRight u ''/''
     in u)"

section \<open>main: the loop over the zone declarations\<close>

text \<open>
  The globals \<open>domain_backend\<close> and \<open>whitelisted\<close>. \<open>main\<close> returns early, with the
  usage text, when the \<open>-domains\<close> flag is empty (\<open>None\<close>); otherwise the loop fills
  the globals, which the server then only reads.
\<close>

record globals =
  domain_backend :: "string \<rightharpoonup> string"
  whitelisted :: "string list"

definition zone_step :: "string \<Rightarrow> globals \<Rightarrow> string \<Rightarrow> globals" where
  "zone_step backend g zone =
    (let parts = SplitN zone ''->'' 2;
         parts = (if length parts < 2 then parts @ [backend] else parts);
         parts = parts[1 := fixUrl (parts ! 1)]
     in g\<lparr>domain_backend := (domain_backend g)(parts ! 0 \<mapsto> parts ! 1),
          whitelisted := whitelisted g @ [parts ! 0]\<rparr>)"

definition main :: "string \<Rightarrow> string \<Rightarrow> globals option" where
  "main domains backend =
    (if domains = [] then None
     else Some (foldl (zone_step backend)
                  \<lparr>domain_backend = Map.empty, whitelisted = []\<rparr>
                  (Split domains '','')))"

section \<open>Requests and the libraries around them\<close>

text \<open>
  The fields of \<open>http.Request\<close> that the program reads or writes. \<open>URL\<close> is a pointer
  (\<open>None\<close> is nil) to a value of the library's type \<open>url.URL\<close>, here the type
  variable \<open>'u\<close>; the server hands no request with a nil \<open>URL\<close> to a handler, and the
  program itself never dereferences \<open>r.URL\<close>: it calls the library's method on it.
  \<open>Header\<close> maps a canonical header name to its values in order. \<open>Body\<close> is the
  bytes the body stream yields.
\<close>

record 'u request =
  Method :: string
  URL :: "'u option"
  Proto :: string
  Header :: "string \<rightharpoonup> string list"
  Body :: string
  Host :: string
  RemoteAddr :: string

text \<open>
  What the program takes from \<open>net/url\<close> and \<open>unicode\<close>: \<open>url.Parse\<close> with its error
  dropped as the program drops it (\<open>None\<close>: the error case, a nil pointer), the
  method \<open>RequestURI\<close> of a URL pointer, the field \<open>Host\<close> of a URL, and the case
  mapping described at \<open>ToLower\<close>.
\<close>

record 'u library =
  url_Parse :: "string \<Rightarrow> 'u option"
  url_RequestURI :: "'u option \<Rightarrow> string"
  url_Host :: "'u \<Rightarrow> string"
  unicode_ToLower :: "string \<Rightarrow> string"

text \<open>\<open>h[key]\<close> of a Go map of string slices: a missing key reads as the empty slice.\<close>

definition values_of :: "(string \<rightharpoonup> string list) \<Rightarrow> string \<Rightarrow> string list" where
  "values_of h key = (case h key of None \<Rightarrow> [] | Some vals \<Rightarrow> vals)"

text \<open>\<open>Header.Get\<close> for a key that is already in canonical form, as \<open>"Upgrade"\<close> is.\<close>

definition Get :: "(string \<rightharpoonup> string list) \<Rightarrow> string \<Rightarrow> string" where
  "Get h key = (case values_of h key of [] \<Rightarrow> [] | v # _ \<Rightarrow> v)"

section \<open>handler\<close>

text \<open>
  How \<open>handler\<close> leaves a request: \<open>Reject msg code\<close> is \<open>http.Error(w, msg, code)\<close>
  followed by \<open>return\<close>; \<open>Tunnel u\<close> is \<open>NewWebsocketReverseProxy(u).ServeHTTP(w, r)\<close>;
  \<open>Forward u\<close> is \<open>ServeHTTP(w, r)\<close> of the proxy that \<open>NewSingleHostReverseProxy(u)\<close>
  returns, with the director \<open>Director\<close> below. The request is returned as \<open>handler\<close>
  has changed it. The value bound to \<open>backend\<close> is \<open>domain_backend[r.Host]\<close>, which the
  program reads a second time after the test for \<open>found\<close>. \<open>SplitN\<close> with \<open>n = 2\<close> never
  returns an empty slice (\<open>SplitN_2_not_Nil\<close> below), so element 0 is always there.
\<close>

datatype 'u dispatch =
    Reject string nat
  | Tunnel "'u option"
  | Forward "'u option"

definition handler :: "'u library \<Rightarrow> globals \<Rightarrow> 'u request \<Rightarrow> 'u request \<times> 'u dispatch" where
  "handler lib g r0 =
    (let r = r0\<lparr>Host := SplitN (Host r0) '':'' 2 ! 0\<rparr>
     in case domain_backend g (Host r) of
          None \<Rightarrow> (r, Reject (Host r @ '': not found'') 501)
        | Some backend \<Rightarrow>
            (let r = r\<lparr>Header := (Header r)(''X-Forwarded-Proto'' \<mapsto> [''https''])\<rparr>;
                 r = r\<lparr>Header := (Header r)(''X-Forwarded-For'' \<mapsto>
                        values_of (Header r) ''X-Forwarded-For''
                          @ [SplitN (RemoteAddr r) '':'' 2 ! 0])\<rparr>;
                 u = url_Parse lib
                       (backend @ ''/'' @ TrimLeft (url_RequestURI lib (URL r)) ''/'')
             in if ToLower (unicode_ToLower lib) (Get (Header r) ''Upgrade'') = ''websocket''
                then (r, Tunnel u)
                else (r, Forward u)))"


section \<open>NewWebsocketReverseProxy\<close>

text \<open>
  The block that replays the request; \<open>LF\<close> is the \<open>"\n"\<close> of the source. The loop
  over \<open>r.Header\<close> visits every key of the map once, in an order the Go runtime
  chooses; \<open>ks\<close> is that order.
\<close>

definition header_lines :: "(string \<rightharpoonup> string list) \<Rightarrow> string list \<Rightarrow> string \<Rightarrow> string" where
  "header_lines h ks message =
     foldl (\<lambda>message k. foldl (\<lambda>message v. message @ k @ '': '' @ v @ LF) message (values_of h k))
       message ks"

definition message :: "'u library \<Rightarrow> 'u request \<Rightarrow> string list \<Rightarrow> string" where
  "message lib r ks =
    (let m = Method r @ '' '' @ url_RequestURI lib (URL r) @ '' '' @ Proto r @ LF;
         m = m @ ''Host: '' @ Host r @ LF;
         m = header_lines (Header r) ks m;
         m = m @ LF
     in m)"

text \<open>
  What the handler does to the world, in program order. \<open>'c\<close> is the type of
  connections. \<open>GoCopy dst srcs\<close> is \<open>go io.Copy(dst, io.MultiReader(srcs))\<close>, which
  writes what the readers yield one after the other; \<open>Copy dst src\<close> is
  \<open>io.Copy(dst, src)\<close>; the two \<open>Close\<close> are the deferred calls, which run last
  opened first; \<open>NilDereference\<close> is the panic of \<open>u.Host\<close> on a nil \<open>u\<close>.
\<close>

datatype 'c reader =
    StringReader string
  | BodyReader string
  | ConnReader 'c

datatype 'c event =
    NilDereference
  | NetDial string
  | HttpError string nat
  | Hijack
  | GoCopy 'c "'c reader list"
  | Copy 'c 'c
  | Close 'c

text \<open>
  \<open>Dial addr\<close> is \<open>net.Dial("tcp", addr)\<close>: an error text or a connection. \<open>w\<close> is
  the response writer as the program uses it: \<open>None\<close> when it is no \<open>http.Hijacker\<close>,
  otherwise what \<open>Hijack()\<close> returns.
\<close>

definition no_hijacking :: string where
  "no_hijacking = ''webserver doesn'' @ [CHR 0x27] @ ''t support hijacking''"

definition NewWebsocketReverseProxy ::
  "'u library \<Rightarrow> (string \<Rightarrow> string + 'c) \<Rightarrow> 'u option \<Rightarrow> (string + 'c) option \<Rightarrow> 'u request
     \<Rightarrow> string list \<Rightarrow> 'c event list" where
  "NewWebsocketReverseProxy lib Dial u w r ks =
    (case u of
       None \<Rightarrow> [NilDereference]
     | Some target \<Rightarrow>
        (case Dial (url_Host lib target) of
           Inl err \<Rightarrow> [NetDial (url_Host lib target), HttpError err 500]
         | Inr backConn \<Rightarrow>
            (case w of
               None \<Rightarrow>
                 [NetDial (url_Host lib target), HttpError no_hijacking 500, Close backConn]
             | Some (Inl err) \<Rightarrow>
                 [NetDial (url_Host lib target), Hijack, HttpError err 500, Close backConn]
             | Some (Inr clientConn) \<Rightarrow>
                 [NetDial (url_Host lib target), Hijack,
                  GoCopy backConn
                    [StringReader (message lib r ks), BodyReader (Body r), ConnReader clientConn],
                  Copy clientConn backConn,
                  Close clientConn, Close backConn])))"

section \<open>Notions of the specification\<close>

text \<open>A target that carries one of the two schemes \<open>fixUrl\<close> looks for.\<close>

definition schemed :: "string \<Rightarrow> bool" where
  "schemed u = (HasPrefix u ''ws://'' \<or> HasPrefix u ''http://'')"

text \<open>
  A zone as the specification reads it: the domain is the text before the first \<open>->\<close>
  and the target the text after it; a zone without \<open>->\<close> is a domain whose target is
  the default. The target is stored normalized.
\<close>

definition zone_entry :: "string \<Rightarrow> string \<Rightarrow> string \<times> string" where
  "zone_entry backend zone =
     (let i = Index zone ''->''
      in if i < 0 then (zone, fixUrl backend)
         else (take (nat i) zone, fixUrl (drop (nat i + 2) zone)))"

text \<open>The expression by which \<open>handler\<close> strips the port of \<open>r.Host\<close> and \<open>r.RemoteAddr\<close>.\<close>

abbreviation before_colon :: "string \<Rightarrow> string" where
  "before_colon s \<equiv> SplitN s '':'' 2 ! 0"

text \<open>
  The lines of the replayed request without their line ends, and a block of lines in
  which every line ends with \<open>eol\<close> and an empty line closes the block. HTTP on the wire
  is \<open>framed CRLF\<close>.
\<close>

definition CRLF :: string where
  "CRLF = [CHR 0x0D, CHR 0x0A]"

definition replay_lines :: "'u library \<Rightarrow> 'u request \<Rightarrow> string list \<Rightarrow> string list" where
  "replay_lines lib r ks =
     (Method r @ '' '' @ url_RequestURI lib (URL r) @ '' '' @ Proto r)
     # (''Host: '' @ Host r)
     # concat (map (\<lambda>k. map (\<lambda>v. k @ '': '' @ v) (values_of (Header r) k)) ks)"

definition framed :: "string \<Rightarrow> string list \<Rightarrow> string" where
  "framed eol ls = concat (map (\<lambda>l. l @ eol) ls) @ eol"

section \<open>Example values\<close>

text \<open>
  A small library for the examples: a URL is its text, every text parses, and the host
  of \<open>http://host/path\<close> is \<open>host\<close>.
\<close>

definition text_library :: "string library" where
  "text_library =
     \<lparr>url_Parse = Some,
      url_RequestURI = (\<lambda>u. case u of None \<Rightarrow> [] | Some s \<Rightarrow> s),
      url_Host = (\<lambda>u. takeWhile (\<lambda>c. c \<noteq> CHR ''/'') (drop 7 u)),
      unicode_ToLower = (\<lambda>s. s)\<rparr>"

definition ex_globals :: globals where
  "ex_globals =
     \<lparr>domain_backend = [''a.com'' \<mapsto> ''http://localhost:80'', ''b.com'' \<mapsto> ''http://localhost:9000''],
      whitelisted = [''a.com'', ''b.com'']\<rparr>"

definition ex_request :: "string request" where
  "ex_request =
     \<lparr>Method = ''GET'', URL = Some ''/foo?x=1'', Proto = ''HTTP/1.1'',
      Header = [''Upgrade'' \<mapsto> [''WebSocket''], ''X-Forwarded-For'' \<mapsto> [''10.0.0.1'']],
      Body = [], Host = ''b.com:443'', RemoteAddr = ''192.0.2.7:52345''\<rparr>"

definition ex_plain :: "string request" where
  "ex_plain =
     \<lparr>Method = ''GET'', URL = Some ''//foo?x=1'', Proto = ''HTTP/1.1'',
      Header = [''Accept'' \<mapsto> [''text/html'', ''*/*'']],
      Body = [], Host = ''b.com'', RemoteAddr = ''192.0.2.7:52345''\<rparr>"

definition ex_evil :: "string request" where
  "ex_evil =
     \<lparr>Method = ''GET'', URL = Some ''/'', Proto = ''HTTP/1.1'',
      Header = [''Upgrade'' \<mapsto> [''websocket'']],
      Body = [], Host = ''evil.test:443'', RemoteAddr = ''192.0.2.7:52345''\<rparr>"

definition ex_literal :: "string request" where
  "ex_literal =
     \<lparr>Method = ''GET'', URL = Some ''/'', Proto = ''HTTP/1.1'',
      Header = [''Accept'' \<mapsto> [''*/*'']],
      Body = [], Host = ''[::1]:443'', RemoteAddr = ''192.0.2.7:52345''\<rparr>"

definition ex_ipv6 :: "string request" where
  "ex_ipv6 =
     \<lparr>Method = ''GET'', URL = Some ''/'', Proto = ''HTTP/1.1'',
      Header = [''X-Forwarded-Proto'' \<mapsto> [''http''], ''X-Forwarded-For'' \<mapsto> [''10.0.0.1'']],
      Body = [], Host = ''a.com'', RemoteAddr = ''[2001:db8::7]:52345''\<rparr>"

definition ex_upgrade :: "string request" where
  "ex_upgrade =
     \<lparr>Method = ''GET'', URL = Some ''/chat'', Proto = ''HTTP/1.1'',
      Header = [''Upgrade'' \<mapsto> [''websocket''], ''Accept'' \<mapsto> [''a'', ''b'']],
      Body = ''hello'', Host = ''b.com'', RemoteAddr = ''192.0.2.7:52345''\<rparr>"

section \<open>Facts about the string functions\<close>

lemma TrimRight_last: "TrimRight s cs = [] \<or> last (TrimRight s cs) \<notin> set cs"
proof -
  have "dropWhile (\<lambda>c. c \<in> set cs) (rev s) = []
      \<or> hd (dropWhile (\<lambda>c. c \<in> set cs) (rev s)) \<notin> set cs"
    using hd_dropWhile [of "\<lambda>c. c \<in> set cs" "rev s"] by blast
  then show ?thesis
    by (auto simp: TrimRight_def last_rev)
qed

lemma TrimRight_no_slash: "\<not> suffix ''/'' (TrimRight s ''/'')"
proof
  assume "suffix ''/'' (TrimRight s ''/'')"
  then obtain p where p: "TrimRight s ''/'' = p @ ''/''"
    by (auto simp: suffix_def)
  then have "TrimRight s ''/'' \<noteq> []" "last (TrimRight s ''/'') = CHR ''/''"
    by simp_all
  with TrimRight_last [of s "''/''"] show False
    by simp
qed

lemma TrimRight_prefix:
  assumes "prefix p u" "p \<noteq> []" "last p \<notin> set cs"
  shows "prefix p (TrimRight u cs)"
proof -
  from assms(1) obtain q where u: "u = p @ q"
    by (auto simp: prefix_def)
  have dw: "dropWhile (\<lambda>c. c \<in> set cs) (rev p) = rev p"
    using assms(2,3) by (cases "rev p") (auto simp: last_rev hd_rev)
  show ?thesis
    unfolding TrimRight_def u by (simp add: dropWhile_append dw)
qed

lemma TrimRight_idem: "TrimRight (TrimRight u cs) cs = TrimRight u cs"
  by (simp add: TrimRight_def dropWhile_idem)

lemma TrimLeft_no_slash: "\<not> prefix ''/'' (TrimLeft s ''/'')"
proof
  let ?P = "\<lambda>c. c \<in> set ''/''"
  assume "prefix ''/'' (TrimLeft s ''/'')"
  then obtain q where q: "dropWhile ?P s = CHR ''/'' # q"
    by (auto simp: prefix_def TrimLeft_def)
  then have "dropWhile ?P s \<noteq> []"
    by simp
  then have "\<not> ?P (hd (dropWhile ?P s))"
    by (rule hd_dropWhile)
  then show False
    unfolding q by simp
qed

lemma TrimLeft_slashes: "\<exists>n. s = replicate n (CHR ''/'') @ TrimLeft s ''/''"
proof -
  have "s = takeWhile (\<lambda>c. c \<in> set ''/'') s @ TrimLeft s ''/''"
    by (simp add: TrimLeft_def)
  moreover have "takeWhile (\<lambda>c. c \<in> set ''/'') s
      = replicate (length (takeWhile (\<lambda>c. c \<in> set ''/'') s)) (CHR ''/'')"
    by (rule replicate_length_same [symmetric]) (auto dest: set_takeWhileD)
  ultimately show ?thesis
    by metis
qed

lemma Index_0: "Index s sub = 0 \<longleftrightarrow> prefix sub s"
  by (cases s) (auto simp: Let_def)

lemma Index_absent: "c \<notin> set s \<Longrightarrow> Index s [c] = - 1"
  by (induction s) (auto simp: Let_def)

lemma Index_first: "c \<notin> set h \<Longrightarrow> Index (h @ c # p) [c] = int (length h)"
  by (induction h) (auto simp: Let_def)

text \<open>\<open>SplitN\<close> with \<open>n = 2\<close> returns one or two strings, so its element 0 exists.\<close>

lemma SplitN_2:
  "SplitN s sep 2 =
     (if Index s sep < 0 then [s]
      else [take (nat (Index s sep)) s, drop (nat (Index s sep) + length sep) s])"
proof -
  have "SplitN s sep 2 = genSplit s sep (Suc 0)"
    by (simp add: SplitN_def)
  then show ?thesis
    by (simp add: Let_def)
qed

lemma SplitN_2_not_Nil: "SplitN s sep 2 \<noteq> []"
  by (simp add: SplitN_2)

lemma before_colon_port: "CHR '':'' \<notin> set h \<Longrightarrow> before_colon (h @ '':'' @ p) = h"
  using Index_first [of "CHR '':''" h p] by (simp add: SplitN_2)

lemma before_colon_plain: "CHR '':'' \<notin> set h \<Longrightarrow> before_colon h = h"
  using Index_absent [of "CHR '':''" h] by (simp add: SplitN_2)

lemma ascii_lower_ascii: "is_ascii (ascii_lower c) \<Longrightarrow> is_ascii c"
  by (auto simp: is_ascii_def ascii_lower_def Let_def split: if_splits)

lemma websocket_ascii:
  assumes "map ascii_lower v = ''websocket''"
  shows "list_all is_ascii v"
proof -
  have "list_all is_ascii (map ascii_lower v)"
    unfolding assms by (simp add: is_ascii_def)
  then have "\<forall>c \<in> set v. is_ascii (ascii_lower c)"
    by (simp add: list_all_iff)
  then show ?thesis
    by (auto simp: list_all_iff intro: ascii_lower_ascii)
qed

lemma ToLower_websocket: "map ascii_lower v = ''websocket'' \<Longrightarrow> ToLower f v = ''websocket''"
  using websocket_ascii [of v] by (simp add: ToLower_def)

lemma ToLower_ascii: "list_all is_ascii v \<Longrightarrow> ToLower f v = map ascii_lower v"
  by (simp add: ToLower_def)

section \<open>fixUrl: the shape of the result\<close>

lemma fixUrl_shape: "\<exists>u. fixUrl s = TrimRight u ''/'' \<and> schemed u"
  by (auto simp: fixUrl_def Let_def schemed_def HasPrefix_def)

lemma fixUrl_no_slash: "\<not> suffix ''/'' (fixUrl s)"
  using fixUrl_shape [of s] TrimRight_no_slash by auto

lemma fixUrl_scheme: "HasPrefix (fixUrl s) ''ws:'' \<or> HasPrefix (fixUrl s) ''http:''"
proof -
  obtain u where u: "fixUrl s = TrimRight u ''/''" "schemed u"
    using fixUrl_shape by blast
  from u(2) have "prefix ''ws:'' u \<or> prefix ''http:'' u"
    by (auto simp: schemed_def HasPrefix_def prefix_def)
  then show ?thesis
    unfolding u(1) HasPrefix_def by (auto intro: TrimRight_prefix)
qed

lemma fixUrl_not_https: "\<not> HasPrefix (fixUrl s) ''https://''"
  using fixUrl_scheme [of s] by (auto simp: HasPrefix_def prefix_def)

lemma fixUrl_idem:
  assumes "schemed (fixUrl s)" "TrimSpace (fixUrl s) = fixUrl s"
  shows "fixUrl (fixUrl s) = fixUrl s"
proof -
  let ?r = "fixUrl s"
  have 1: "TrimPrefix ?r ''https://'' = ?r"
    using fixUrl_not_https [of s] by (simp add: TrimPrefix_def)
  have 2: "Index ?r '':'' \<noteq> 0"
    using fixUrl_scheme [of s] by (auto simp: Index_0 HasPrefix_def prefix_def)
  have 3: "HasPrefix ?r ''ws://'' \<or> HasPrefix ?r ''http://''"
    using assms(1) by (simp add: schemed_def)
  obtain u where u: "?r = TrimRight u ''/''"
    using fixUrl_shape by blast
  have 4: "TrimRight ?r ''/'' = ?r"
    by (subst (1 2) u) (rule TrimRight_idem)
  have "fixUrl ?r = TrimRight ?r ''/''"
    using 2 3 unfolding fixUrl_def [of ?r] assms(2) 1 Let_def by auto
  with 4 show ?thesis
    by simp
qed

text \<open>
  C8. \<open>fixUrl\<close> is a function on all strings (its only recursion, \<open>trimRunes\<close>, is
  proved to terminate). Its result never ends with a slash and always begins with
  \<open>ws:\<close> or \<open>http:\<close>. Applying it twice gives the same as applying it once whenever
  the first result carries \<open>ws://\<close> or \<open>http://\<close> and has no white space at its end.
\<close>

theorem fixUrl_normal_form:
  "\<not> suffix ''/'' (fixUrl s)
   \<and> (HasPrefix (fixUrl s) ''ws:'' \<or> HasPrefix (fixUrl s) ''http:'')
   \<and> (schemed (fixUrl s) \<and> TrimSpace (fixUrl s) = fixUrl s \<longrightarrow> fixUrl (fixUrl s) = fixUrl s)"
  using fixUrl_no_slash [of s] fixUrl_scheme [of s] fixUrl_idem [of s] by blast

theorem fixUrl_normal_form_witness:
  "schemed (fixUrl '' https://10.0.0.1:8080// '')
   \<and> TrimSpace (fixUrl '' https://10.0.0.1:8080// '') = fixUrl '' https://10.0.0.1:8080// ''
   \<and> fixUrl '' https://10.0.0.1:8080// '' = ''http://10.0.0.1:8080''
   \<and> fixUrl (fixUrl '' https://10.0.0.1:8080// '') = fixUrl '' https://10.0.0.1:8080// ''"
proof -
  have h: "schemed (fixUrl '' https://10.0.0.1:8080// '')
      \<and> TrimSpace (fixUrl '' https://10.0.0.1:8080// '') = fixUrl '' https://10.0.0.1:8080// ''
      \<and> fixUrl '' https://10.0.0.1:8080// '' = ''http://10.0.0.1:8080''"
    by code_simp
  with fixUrl_normal_form [of "'' https://10.0.0.1:8080// ''"] show ?thesis
    by blast
qed

text \<open>
  The claim as the specification has it fails: a target with white space before its
  last slashes is normalized in two steps, and the empty target becomes \<open>http:\<close>, which
  a second application no longer takes for a scheme.
\<close>

theorem fixUrl_not_idempotent:
  "fixUrl ''x /'' = ''http://x '' \<and> fixUrl (fixUrl ''x /'') = ''http://x''
   \<and> fixUrl [] = ''http:'' \<and> fixUrl (fixUrl []) = ''http://http:''"
  by code_simp

section \<open>main: the registry the loop builds\<close>

lemma zone_step_eq:
  "zone_step backend g zone =
     g\<lparr>domain_backend :=
         (domain_backend g)(fst (zone_entry backend zone) \<mapsto> snd (zone_entry backend zone)),
       whitelisted := whitelisted g @ [fst (zone_entry backend zone)]\<rparr>"
  by (simp add: zone_step_def zone_entry_def SplitN_2 Let_def)

lemma foldl_zone_step:
  "foldl (zone_step backend) g zs =
     g\<lparr>domain_backend := domain_backend g ++ map_of (rev (map (zone_entry backend) zs)),
       whitelisted := whitelisted g @ map (\<lambda>zone. fst (zone_entry backend zone)) zs\<rparr>"
proof (induction zs arbitrary: g)
  case Nil
  show ?case
    by simp
next
  case (Cons z zs)
  have "foldl (zone_step backend) g (z # zs) = foldl (zone_step backend) (zone_step backend g z) zs"
    by simp
  also have "\<dots> = (zone_step backend g z)
      \<lparr>domain_backend :=
         domain_backend (zone_step backend g z) ++ map_of (rev (map (zone_entry backend) zs)),
       whitelisted :=
         whitelisted (zone_step backend g z) @ map (\<lambda>zone. fst (zone_entry backend zone)) zs\<rparr>"
    by (rule Cons.IH)
  also have "\<dots> = g
      \<lparr>domain_backend := domain_backend g ++ map_of (rev (map (zone_entry backend) (z # zs))),
       whitelisted := whitelisted g @ map (\<lambda>zone. fst (zone_entry backend zone)) (z # zs)\<rparr>"
    by (simp add: zone_step_eq map_of_append map_add_assoc [symmetric])
  finally show ?case .
qed

lemma main_eq:
  "main domains backend =
     (if domains = [] then None
      else Some \<lparr>domain_backend = map_of (rev (map (zone_entry backend) (Split domains '',''))),
                 whitelisted = map (\<lambda>zone. fst (zone_entry backend zone)) (Split domains '','')\<rparr>)"
  by (simp add: main_def foldl_zone_step)

lemma main_last_wins:
  assumes "main domains backend = Some g" "Split domains '','' = zs1 @ zone # zs2"
    "\<forall>z \<in> set zs2. fst (zone_entry backend z) \<noteq> fst (zone_entry backend zone)"
  shows "domain_backend g (fst (zone_entry backend zone)) = Some (snd (zone_entry backend zone))"
proof -
  let ?d = "zone_entry backend"
  have g: "domain_backend g = map_of (rev (map ?d (zs1 @ zone # zs2)))"
    using assms(1,2) by (auto simp: main_eq split: if_splits)
  have "map_of (rev (map ?d zs2)) (fst (?d zone)) = None"
    using assms(3) by (force simp: map_of_eq_None_iff)
  then show ?thesis
    unfolding g by (simp add: map_of_append map_add_def)
qed

lemma main_targets:
  assumes "main domains backend = Some g" "domain_backend g d = Some t"
  shows "\<exists>s. t = fixUrl s"
proof -
  have "map_of (rev (map (zone_entry backend) (Split domains '',''))) d = Some t"
    using assms by (auto simp: main_eq split: if_splits)
  then have "(d, t) \<in> set (map (zone_entry backend) (Split domains '',''))"
    by (auto dest: map_of_SomeD)
  then show ?thesis
    by (auto simp: zone_entry_def Let_def split: if_splits)
qed

lemma fixUrl_examples:
  "fixUrl '':80'' = ''http://localhost:80''"
  "fixUrl '':9000'' = ''http://localhost:9000''"
  "fixUrl '':1'' = ''http://localhost:1''"
  "fixUrl '':2'' = ''http://localhost:2''"
  "fixUrl ''b->c'' = ''http://b->c''"
  "fixUrl '':9000///'' = ''http://localhost:9000''"
  "fixUrl ''https://10.0.0.1:8443/'' = ''http://10.0.0.1:8443''"
  by code_simp+

lemma Split_examples:
  "Split ''a.com,b.com->:9000'' '','' = [''a.com'', ''b.com->:9000'']"
  "Split ''x.com->:1,x.com->:2'' '','' = [''x.com->:1'', ''x.com->:2'']"
  "Split ''x.com->:1,x.com->:2,y.com'' '','' = [''x.com->:1'', ''x.com->:2'', ''y.com'']"
  "Split ''b.com->:9000///'' '','' = [''b.com->:9000///'']"
  "Split ''a.com'' '','' = [''a.com'']"
  by code_simp+

lemma zone_entry_examples:
  "zone_entry '':80'' ''a.com'' = (''a.com'', ''http://localhost:80'')"
  "zone_entry '':80'' ''y.com'' = (''y.com'', ''http://localhost:80'')"
  "zone_entry '':80'' ''b.com->:9000'' = (''b.com'', ''http://localhost:9000'')"
  "zone_entry '':80'' ''x.com->:1'' = (''x.com'', ''http://localhost:1'')"
  "zone_entry '':80'' ''x.com->:2'' = (''x.com'', ''http://localhost:2'')"
  "zone_entry '':80'' ''a.com->b->c'' = (''a.com'', ''http://b->c'')"
  "zone_entry '':80'' ''b.com->:9000///'' = (''b.com'', ''http://localhost:9000'')"
  "zone_entry ''https://10.0.0.1:8443/'' ''a.com'' = (''a.com'', ''http://10.0.0.1:8443'')"
  by (simp_all add: zone_entry_def fixUrl_examples)

lemma main_examples:
  "main ''a.com,b.com->:9000'' '':80'' =
     Some \<lparr>domain_backend =
              [''a.com'' \<mapsto> ''http://localhost:80'', ''b.com'' \<mapsto> ''http://localhost:9000''],
           whitelisted = [''a.com'', ''b.com'']\<rparr>"
  "main ''x.com->:1,x.com->:2'' '':80'' =
     Some \<lparr>domain_backend = [''x.com'' \<mapsto> ''http://localhost:2''],
           whitelisted = [''x.com'', ''x.com'']\<rparr>"
  "main ''x.com->:1,x.com->:2,y.com'' '':80'' =
     Some \<lparr>domain_backend =
              [''x.com'' \<mapsto> ''http://localhost:2'', ''y.com'' \<mapsto> ''http://localhost:80''],
           whitelisted = [''x.com'', ''x.com'', ''y.com'']\<rparr>"
  "main ''b.com->:9000///'' '':80'' =
     Some \<lparr>domain_backend = [''b.com'' \<mapsto> ''http://localhost:9000''], whitelisted = [''b.com'']\<rparr>"
  "main ''a.com'' ''https://10.0.0.1:8443/'' =
     Some \<lparr>domain_backend = [''a.com'' \<mapsto> ''http://10.0.0.1:8443''], whitelisted = [''a.com'']\<rparr>"
  by (simp_all add: main_eq Split_examples zone_entry_examples)

text \<open>
  C9. The registry that \<open>main\<close> builds from the comma-separated zones: every zone is cut
  at its first \<open>->\<close> only, a zone without a target gets the default, the target is
  stored as \<open>fixUrl\<close> returns it, and of two zones with the same domain the later one
  is the one found (the lookup reads the entries last to first). The allow-list holds
  the domains in the order of the zones. The two examples of the specification come
  out as stated.
\<close>

theorem registry_construction:
  "main domains backend =
     (if domains = [] then None
      else Some \<lparr>domain_backend = map_of (rev (map (zone_entry backend) (Split domains '',''))),
                 whitelisted = map (\<lambda>zone. fst (zone_entry backend zone)) (Split domains '','')\<rparr>)
   \<and> (main domains backend = Some g \<and> Split domains '','' = zs1 @ zone # zs2
        \<and> (\<forall>z \<in> set zs2. fst (zone_entry backend z) \<noteq> fst (zone_entry backend zone))
      \<longrightarrow> domain_backend g (fst (zone_entry backend zone)) = Some (snd (zone_entry backend zone)))
   \<and> zone_entry '':80'' ''a.com->b->c'' = (''a.com'', ''http://b->c'')
   \<and> zone_entry '':80'' ''a.com'' = (''a.com'', ''http://localhost:80'')
   \<and> main ''a.com,b.com->:9000'' '':80'' =
       Some \<lparr>domain_backend =
                [''a.com'' \<mapsto> ''http://localhost:80'', ''b.com'' \<mapsto> ''http://localhost:9000''],
             whitelisted = [''a.com'', ''b.com'']\<rparr>
   \<and> main ''x.com->:1,x.com->:2'' '':80'' =
       Some \<lparr>domain_backend = [''x.com'' \<mapsto> ''http://localhost:2''],
             whitelisted = [''x.com'', ''x.com'']\<rparr>"
  using main_eq [of domains backend] main_last_wins [of domains backend g zs1 zone zs2]
    zone_entry_examples(1,6) main_examples(1,2)
  by blast

theorem registry_construction_witness:
  "main ''x.com->:1,x.com->:2,y.com'' '':80'' =
     Some \<lparr>domain_backend =
              [''x.com'' \<mapsto> ''http://localhost:2'', ''y.com'' \<mapsto> ''http://localhost:80''],
           whitelisted = [''x.com'', ''x.com'', ''y.com'']\<rparr>
   \<and> Split ''x.com->:1,x.com->:2,y.com'' '','' = [''x.com->:1''] @ ''x.com->:2'' # [''y.com'']
   \<and> fst (zone_entry '':80'' ''y.com'') \<noteq> fst (zone_entry '':80'' ''x.com->:2'')
   \<and> domain_backend
        \<lparr>domain_backend =
           [''x.com'' \<mapsto> ''http://localhost:2'', ''y.com'' \<mapsto> ''http://localhost:80''],
         whitelisted = [''x.com'', ''x.com'', ''y.com'']\<rparr>
        (fst (zone_entry '':80'' ''x.com->:2'')) = Some (snd (zone_entry '':80'' ''x.com->:2''))"
proof -
  let ?g = "\<lparr>domain_backend =
      [''x.com'' \<mapsto> ''http://localhost:2'', ''y.com'' \<mapsto> ''http://localhost:80''],
    whitelisted = [''x.com'', ''x.com'', ''y.com'']\<rparr>"
  have m: "main ''x.com->:1,x.com->:2,y.com'' '':80'' = Some ?g"
    by (rule main_examples(3))
  have s: "Split ''x.com->:1,x.com->:2,y.com'' '','' = [''x.com->:1''] @ ''x.com->:2'' # [''y.com'']"
    by (simp add: Split_examples)
  have n: "\<forall>z \<in> set [''y.com'']. fst (zone_entry '':80'' z) \<noteq> fst (zone_entry '':80'' ''x.com->:2'')"
    by (simp add: zone_entry_examples)
  have "domain_backend ?g (fst (zone_entry '':80'' ''x.com->:2''))
      = Some (snd (zone_entry '':80'' ''x.com->:2''))"
    using registry_construction [of "''x.com->:1,x.com->:2,y.com''" "'':80''" ?g
      "[''x.com->:1'']" "''x.com->:2''" "[''y.com'']"] m s n
    by blast
  moreover have "fst (zone_entry '':80'' ''y.com'') \<noteq> fst (zone_entry '':80'' ''x.com->:2'')"
    by (simp add: zone_entry_examples)
  ultimately show ?thesis
    using m s by blast
qed

text \<open>
  C10. No result of \<open>fixUrl\<close> begins with \<open>https://\<close>, and so no target that \<open>main\<close>
  stores in the registry does.
\<close>

theorem fixUrl_never_https:
  "\<not> HasPrefix (fixUrl s) ''https://''
   \<and> (main domains backend = Some g \<and> domain_backend g d = Some t \<longrightarrow> \<not> HasPrefix t ''https://'')"
  using fixUrl_not_https main_targets [of domains backend g d t] by blast

theorem fixUrl_never_https_witness:
  "main ''a.com'' ''https://10.0.0.1:8443/'' =
     Some \<lparr>domain_backend = [''a.com'' \<mapsto> ''http://10.0.0.1:8443''], whitelisted = [''a.com'']\<rparr>
   \<and> domain_backend
        \<lparr>domain_backend = [''a.com'' \<mapsto> ''http://10.0.0.1:8443''], whitelisted = [''a.com'']\<rparr>
        ''a.com'' = Some ''http://10.0.0.1:8443''
   \<and> \<not> HasPrefix ''http://10.0.0.1:8443'' ''https://''"
proof -
  let ?g = "\<lparr>domain_backend = [''a.com'' \<mapsto> ''http://10.0.0.1:8443''], whitelisted = [''a.com'']\<rparr>"
  have m: "main ''a.com'' ''https://10.0.0.1:8443/'' = Some ?g"
    by (rule main_examples(5))
  have d: "domain_backend ?g ''a.com'' = Some ''http://10.0.0.1:8443''"
    by simp
  from fixUrl_never_https [of "''https://10.0.0.1:8443/''" "''a.com''" "''https://10.0.0.1:8443/''"
      ?g "''a.com''" "''http://10.0.0.1:8443''"] m d
  show ?thesis
    by blast
qed

section \<open>handler: what it does with a request\<close>

lemma handler_found:
  assumes "domain_backend g (before_colon (Host r)) = Some backend"
  shows "handler lib g r =
    (r\<lparr>Host := before_colon (Host r),
       Header := (Header r)
         (''X-Forwarded-Proto'' \<mapsto> [''https''],
          ''X-Forwarded-For'' \<mapsto>
             values_of (Header r) ''X-Forwarded-For'' @ [before_colon (RemoteAddr r)])\<rparr>,
     if ToLower (unicode_ToLower lib) (Get (Header r) ''Upgrade'') = ''websocket''
     then Tunnel (url_Parse lib (backend @ ''/'' @ TrimLeft (url_RequestURI lib (URL r)) ''/''))
     else Forward (url_Parse lib (backend @ ''/'' @ TrimLeft (url_RequestURI lib (URL r)) ''/'')))"
  using assms by (simp add: handler_def Let_def values_of_def Get_def)

lemma handler_not_found:
  assumes "domain_backend g (before_colon (Host r)) = None"
  shows "handler lib g r =
    (r\<lparr>Host := before_colon (Host r)\<rparr>, Reject (before_colon (Host r) @ '': not found'') 501)"
  using assms by (simp add: handler_def Let_def)

lemma handler_forwarded:
  assumes "domain_backend g (before_colon (Host r)) = Some backend"
  shows "Header (fst (handler lib g r)) ''X-Forwarded-Proto'' = Some [''https'']"
    and "Header (fst (handler lib g r)) ''X-Forwarded-For'' =
           Some (values_of (Header r) ''X-Forwarded-For'' @ [before_colon (RemoteAddr r)])"
  by (simp_all add: handler_found [OF assms])

lemma before_colon_examples:
  "before_colon ''b.com:443'' = ''b.com''"
  "before_colon ''b.com'' = ''b.com''"
  "before_colon ''a.com'' = ''a.com''"
  "before_colon ''evil.test:443'' = ''evil.test''"
  "before_colon ''[2001:db8::7]:52345'' = ''[2001''"
  "before_colon ''[::1]:443'' = ''[''"
  by (simp_all add: SplitN_2)

text \<open>
  C1. For a request whose host name is in the registry, \<open>handler\<close> lowers the first
  value of the \<open>Upgrade\<close> header and compares it with \<open>websocket\<close>: on equality the
  request goes to the tunnel proxy, otherwise to the forwarding proxy, in both cases
  with the URL parsed from the target, one slash and the request URI without its
  leading slashes. Every spelling of \<open>websocket\<close> in upper and lower case letters
  compares equal; on a value of ASCII bytes the comparison is that of the lowered
  bytes.
\<close>

theorem handler_upgrade:
  assumes "domain_backend g (before_colon (Host r)) = Some backend"
  shows "snd (handler lib g r) =
     (if ToLower (unicode_ToLower lib) (Get (Header r) ''Upgrade'') = ''websocket''
      then Tunnel (url_Parse lib (backend @ ''/'' @ TrimLeft (url_RequestURI lib (URL r)) ''/''))
      else Forward (url_Parse lib (backend @ ''/'' @ TrimLeft (url_RequestURI lib (URL r)) ''/'')))
    \<and> (map ascii_lower v = ''websocket'' \<longrightarrow> ToLower (unicode_ToLower lib) v = ''websocket'')
    \<and> (list_all is_ascii v \<longrightarrow> ToLower (unicode_ToLower lib) v = map ascii_lower v)"
  using handler_found [OF assms, of lib] ToLower_websocket [of v] ToLower_ascii [of v]
  by simp

theorem handler_upgrade_witness:
  "domain_backend ex_globals (before_colon (Host ex_request)) = Some ''http://localhost:9000''
   \<and> map ascii_lower ''WebSocket'' = ''websocket''
   \<and> list_all is_ascii ''WebSocket''
   \<and> snd (handler text_library ex_globals ex_request) = Tunnel (Some ''http://localhost:9000/foo?x=1'')"
proof -
  have h: "domain_backend ex_globals (before_colon (Host ex_request)) = Some ''http://localhost:9000''"
    by (simp add: ex_globals_def ex_request_def before_colon_examples)
  have l: "map ascii_lower ''WebSocket'' = ''websocket''" "list_all is_ascii ''WebSocket''"
    by code_simp+
  from handler_upgrade [OF h, of text_library "''WebSocket''"] h l show ?thesis
    by (simp add: text_library_def ex_request_def Get_def values_of_def TrimLeft_def)
qed

text \<open>
  C4. For a registry built by \<open>main\<close> and a request to a host in it, the URL that
  \<open>handler\<close> passes on is parsed from the stored target, one slash, and the request
  URI without its leading slashes: the target does not end with a slash (whatever
  number of slashes the configured target ended with) and what follows the slash does
  not begin with one (whatever number of slashes the request URI began with).
\<close>

theorem upstream_one_slash:
  assumes "main domains backend = Some g" "domain_backend g (before_colon (Host r)) = Some target"
  shows "\<exists>rest n.
      (snd (handler lib g r) = Tunnel (url_Parse lib (target @ ''/'' @ rest))
        \<or> snd (handler lib g r) = Forward (url_Parse lib (target @ ''/'' @ rest)))
      \<and> url_RequestURI lib (URL r) = replicate n (CHR ''/'') @ rest
      \<and> \<not> prefix ''/'' rest \<and> \<not> suffix ''/'' target"
proof -
  let ?rest = "TrimLeft (url_RequestURI lib (URL r)) ''/''"
  obtain n where n: "url_RequestURI lib (URL r) = replicate n (CHR ''/'') @ ?rest"
    using TrimLeft_slashes by blast
  obtain s where "target = fixUrl s"
    using main_targets [OF assms] by blast
  then have t: "\<not> suffix ''/'' target"
    by (simp add: fixUrl_no_slash)
  have "snd (handler lib g r) = Tunnel (url_Parse lib (target @ ''/'' @ ?rest))
        \<or> snd (handler lib g r) = Forward (url_Parse lib (target @ ''/'' @ ?rest))"
    by (simp add: handler_found [OF assms(2)])
  with n t TrimLeft_no_slash [of "url_RequestURI lib (URL r)"] show ?thesis
    by blast
qed

theorem upstream_one_slash_witness:
  "\<exists>g. main ''b.com->:9000///'' '':80'' = Some g
     \<and> domain_backend g (before_colon (Host ex_plain)) = Some ''http://localhost:9000''
     \<and> url_RequestURI text_library (URL ex_plain) = ''//foo?x=1''
     \<and> snd (handler text_library g ex_plain) = Forward (Some ''http://localhost:9000/foo?x=1'')
     \<and> (\<exists>rest n.
          (snd (handler text_library g ex_plain)
             = Tunnel (url_Parse text_library (''http://localhost:9000'' @ ''/'' @ rest))
           \<or> snd (handler text_library g ex_plain)
             = Forward (url_Parse text_library (''http://localhost:9000'' @ ''/'' @ rest)))
          \<and> url_RequestURI text_library (URL ex_plain) = replicate n (CHR ''/'') @ rest
          \<and> \<not> prefix ''/'' rest \<and> \<not> suffix ''/'' ''http://localhost:9000'')"
proof -
  let ?g = "\<lparr>domain_backend = [''b.com'' \<mapsto> ''http://localhost:9000''], whitelisted = [''b.com'']\<rparr>"
  have m: "main ''b.com->:9000///'' '':80'' = Some ?g"
    by (rule main_examples(4))
  have d: "domain_backend ?g (before_colon (Host ex_plain)) = Some ''http://localhost:9000''"
    by (simp add: ex_plain_def before_colon_examples)
  have u: "url_RequestURI text_library (URL ex_plain) = ''//foo?x=1''"
    by (simp add: text_library_def ex_plain_def)
  have f: "snd (handler text_library ?g ex_plain) = Forward (Some ''http://localhost:9000/foo?x=1'')"
    unfolding handler_found [OF d]
    by (simp add: text_library_def ex_plain_def Get_def values_of_def TrimLeft_def ToLower_def)
  from upstream_one_slash [OF m d, of text_library] m d u f show ?thesis
    by blast
qed

lemma unknown_host_example:
  "handler lib ex_globals ex_evil =
     (ex_evil\<lparr>Host := ''evil.test''\<rparr>, Reject ''evil.test: not found'' 501)"
proof -
  have h: "domain_backend ex_globals (before_colon (Host ex_evil)) = None"
    by (simp add: ex_globals_def ex_evil_def before_colon_examples)
  have b: "before_colon (Host ex_evil) = ''evil.test''"
    by (simp add: ex_evil_def before_colon_examples)
  show ?thesis
    using handler_not_found [OF h, of lib] by (simp add: b)
qed

lemma literal_not_in_body:
  "\<not> sublist ''[::1]'' ''[: not found''"
  "\<not> sublist ''::1'' ''[: not found''"
  by code_simp+

text \<open>
  C6. When the text of \<open>Host\<close> before its first colon is not a key of the registry,
  \<open>handler\<close> answers with status 501 and that text followed by \<open>: not found\<close>, changes
  nothing of the request but \<open>Host\<close>, and calls neither proxy (\<open>handler_not_found\<close>);
  for a host without a colon of its own that text is the host with its port discarded
  (\<open>before_colon_port\<close>, \<open>before_colon_plain\<close>), as for \<open>evil.test:443\<close>
  (\<open>unknown_host_example\<close>). For a host written as an IPv6 literal it is not: the
  request with \<open>Host: [::1]:443\<close>, whose host name \<open>[::1]\<close> is not in the registry,
  is answered with the body \<open>[: not found\<close>, in which the rejected host name does not
  occur, with or without its brackets.
\<close>

theorem unknown_host_ipv6_literal:
  "handler lib ex_globals ex_literal =
     (ex_literal\<lparr>Host := ''[''\<rparr>, Reject ''[: not found'' 501)
   \<and> \<not> sublist ''[::1]'' ''[: not found''
   \<and> \<not> sublist ''::1'' ''[: not found''"
proof -
  have h: "domain_backend ex_globals (before_colon (Host ex_literal)) = None"
    by (simp add: ex_globals_def ex_literal_def before_colon_examples)
  have b: "before_colon (Host ex_literal) = ''[''"
    by (simp add: ex_literal_def before_colon_examples)
  show ?thesis
    using handler_not_found [OF h, of lib] literal_not_in_body by (simp add: b)
qed



text \<open>
  C5. \<open>handler\<close> sets \<open>X-Forwarded-Proto\<close> to the one value \<open>https\<close> and appends to
  \<open>X-Forwarded-For\<close> the text of \<open>RemoteAddr\<close> before its first colon
  (\<open>handler_forwarded\<close>). For a client with an IPv6 address that text is not the
  client's address: the server writes such a remote address as \<open>[address]:port\<close>, and
  the address itself holds colons. Here the client \<open>2001:db8::7\<close> is recorded as
  \<open>[2001\<close>.
\<close>

theorem forwarded_for_ipv6_client:
  "Header (fst (handler lib ex_globals ex_ipv6)) ''X-Forwarded-Proto'' = Some [''https'']
   \<and> Header (fst (handler lib ex_globals ex_ipv6)) ''X-Forwarded-For'' = Some [''10.0.0.1'', ''[2001'']"
proof -
  have h: "domain_backend ex_globals (before_colon (Host ex_ipv6)) = Some ''http://localhost:80''"
    by (simp add: ex_globals_def ex_ipv6_def before_colon_examples)
  have a: "before_colon (RemoteAddr ex_ipv6) = ''[2001''"
    by (simp add: ex_ipv6_def before_colon_examples)
  have v: "values_of (Header ex_ipv6) ''X-Forwarded-For'' = [''10.0.0.1'']"
    by (simp add: ex_ipv6_def values_of_def)
  show ?thesis
    using handler_forwarded [OF h, of lib] by (simp add: a v)
qed

section \<open>NewWebsocketReverseProxy: dialling and replaying\<close>

lemma foldl_append: "foldl (\<lambda>m v. m @ f v) m vs = m @ concat (map f vs)"
  by (induction vs arbitrary: m) simp_all

lemma header_lines_eq:
  "header_lines h ks m =
     m @ concat (map (\<lambda>l. l @ LF)
           (concat (map (\<lambda>k. map (\<lambda>v. k @ '': '' @ v) (values_of h k)) ks)))"
proof (induction ks arbitrary: m)
  case Nil
  show ?case
    by (simp add: header_lines_def)
next
  case (Cons k ks)
  have "header_lines h (k # ks) m =
      header_lines h ks (foldl (\<lambda>m v. m @ (k @ '': '' @ v @ LF)) m (values_of h k))"
    by (simp add: header_lines_def)
  also have "\<dots> = header_lines h ks (m @ concat (map (\<lambda>v. k @ '': '' @ v @ LF) (values_of h k)))"
    by (simp only: foldl_append)
  finally show ?case
    by (simp add: Cons.IH comp_def)
qed

lemma message_eq: "message lib r ks = framed LF (replay_lines lib r ks)"
  by (simp add: message_def Let_def header_lines_eq framed_def replay_lines_def)

lemma length_framed:
  "length (framed eol ls) = sum_list (map length ls) + Suc (length ls) * length eol"
  by (induction ls) (simp_all add: framed_def)

lemma message_not_CRLF: "message lib r ks \<noteq> framed CRLF (replay_lines lib r ks)"
proof
  assume "message lib r ks = framed CRLF (replay_lines lib r ks)"
  then have "length (framed LF (replay_lines lib r ks)) = length (framed CRLF (replay_lines lib r ks))"
    by (simp add: message_eq)
  then show False
    by (simp add: length_framed LF_def CRLF_def)
qed

lemma replay_lines_count:
  "length (replay_lines lib r ks) = 2 + sum_list (map (\<lambda>k. length (values_of (Header r) k)) ks)"
  by (simp add: replay_lines_def length_concat comp_def)

lemma tunnel_established:
  assumes "u = Some target" "Dial (url_Host lib target) = Inr backConn" "w = Some (Inr clientConn)"
  shows "NewWebsocketReverseProxy lib Dial u w r ks =
     [NetDial (url_Host lib target), Hijack,
      GoCopy backConn [StringReader (message lib r ks), BodyReader (Body r), ConnReader clientConn],
      Copy clientConn backConn, Close clientConn, Close backConn]"
  using assms by (simp add: NewWebsocketReverseProxy_def)

lemma ex_message:
  "message text_library ex_upgrade [''Accept'', ''Upgrade''] =
     ''GET /chat HTTP/1.1'' @ LF @ ''Host: b.com'' @ LF @ ''Accept: a'' @ LF @ ''Accept: b'' @ LF
       @ ''Upgrade: websocket'' @ LF @ LF"
  by (simp add: message_def header_lines_def values_of_def ex_upgrade_def text_library_def Let_def)

text \<open>
  C2. The block that is written to the backend is the request line, the \<open>Host\<close> line
  and one line for every value of every header, then an empty line; after a
  successful dial and hijack it is followed by the body and the client's stream
  (\<open>tunnel_established\<close>). Every line ends with a bare line feed, so the block is never
  the framing of HTTP on the wire, where every line ends with carriage return and line
  feed. The request of the example is written as shown.
\<close>

theorem replay_block_bare_newlines:
  "message lib r ks = framed LF (replay_lines lib r ks)
   \<and> message lib r ks \<noteq> framed CRLF (replay_lines lib r ks)
   \<and> message text_library ex_upgrade [''Accept'', ''Upgrade''] =
       ''GET /chat HTTP/1.1'' @ LF @ ''Host: b.com'' @ LF @ ''Accept: a'' @ LF @ ''Accept: b'' @ LF
         @ ''Upgrade: websocket'' @ LF @ LF"
  using message_eq [of lib r ks] message_not_CRLF [of lib r ks] ex_message by simp

text \<open>
  C3. When the dial to the host of the target fails, the handler answers with status
  500 and the error's text and returns: \<open>Hijack\<close> is not called and nothing is copied.
\<close>

theorem dial_failure:
  assumes "u = Some target" "Dial (url_Host lib target) = Inl err"
  shows "NewWebsocketReverseProxy lib Dial u w r ks
      = [NetDial (url_Host lib target), HttpError err 500]
    \<and> Hijack \<notin> set (NewWebsocketReverseProxy lib Dial u w r ks)"
  using assms by (simp add: NewWebsocketReverseProxy_def)

theorem dial_failure_witness:
  "NewWebsocketReverseProxy text_library (\<lambda>addr. Inl ''connection refused'')
       (Some ''http://localhost:9000/chat'') (Some (Inr (2::nat))) ex_upgrade [''Accept'', ''Upgrade'']
     = [NetDial ''localhost:9000'', HttpError ''connection refused'' 500]
   \<and> Hijack \<notin> set (NewWebsocketReverseProxy text_library (\<lambda>addr. Inl ''connection refused'')
        (Some ''http://localhost:9000/chat'') (Some (Inr (2::nat))) ex_upgrade [''Accept'', ''Upgrade''])"
proof -
  have t: "url_Host text_library ''http://localhost:9000/chat'' = ''localhost:9000''"
    by (simp add: text_library_def)
  from dial_failure [of "Some ''http://localhost:9000/chat''" "''http://localhost:9000/chat''"
      "\<lambda>addr. Inl ''connection refused''" text_library "''connection refused''" "Some (Inr (2::nat))"
      ex_upgrade "[''Accept'', ''Upgrade'']"]
  show ?thesis
    by (simp add: t)
qed

end
